theory Spec2Isabelle
  imports Complex_Main "HOL-Library.Log_Nat"
begin

section \<open>Python values used by the admin API\<close>

subsection \<open>Floats\<close>

text \<open>
  A Python \<open>float\<close> is an IEEE binary64 value. \<open>Finite r\<close> is the double whose exact
  value is the rational \<open>r\<close>; the two zeros, equal under Python's \<open>==\<close>, are one value.
\<close>

datatype pyfloat = Finite rat | PInf | NInf | NaN

definition pow2 :: "int \<Rightarrow> rat" where
  "pow2 e = (if 0 \<le> e then 2 ^ nat e else 1 / 2 ^ nat (- e))"

text \<open>\<open>ilog2 x\<close> is the exponent \<open>e\<close> with \<open>2^e \<le> \<bar>x\<bar> < 2^(e+1)\<close>, for \<open>x \<noteq> 0\<close>.\<close>

definition ilog2 :: "rat \<Rightarrow> int" where
  "ilog2 x =
     (let (p, q) = quotient_of \<bar>x\<bar>;
          e0 = bitlen p - bitlen q
      in if pow2 e0 \<le> \<bar>x\<bar> then e0 else e0 - 1)"

definition round_half_even :: "rat \<Rightarrow> int" where
  "round_half_even x =
     (let f = \<lfloor>x\<rfloor>; d = x - of_int f
      in if d < 1 / 2 then f
         else if 1 / 2 < d then f + 1
         else if even f then f else f + 1)"

text \<open>
  Rounding an exact value to the nearest double, ties to even: 53 significant bits for a
  normal number, multiples of \<open>2^-1074\<close> below \<open>2^-1022\<close>, an infinity when the
  rounded magnitude \<open>\<bar>m\<bar> * 2^q\<close> reaches \<open>2^1024\<close>. As \<open>\<bar>m\<bar> \<le> 2^53\<close>, that needs
  \<open>971 \<le> q\<close>, which is tested first.
\<close>

definition to_double :: "rat \<Rightarrow> pyfloat" where
  "to_double x =
     (if x = 0 then Finite 0
      else let q = max (ilog2 x - 52) (- 1074);
               m = round_half_even (x / pow2 q)
           in if q < 971 then Finite (of_int m * pow2 q)
              else if \<bar>m\<bar> < 2 ^ nat (1024 - q) then Finite (of_int m * pow2 q)
              else if 0 < m then PInf else NInf)"

datatype error =
    HTTPException nat string
  | ZeroDivisionError
  | OverflowError

text \<open>
  \<open>a / b\<close> on two Python ints: the correctly rounded quotient, \<open>ZeroDivisionError\<close> for a
  zero divisor and \<open>OverflowError\<close> when the quotient is too large for a float.
\<close>

definition int_true_div :: "int \<Rightarrow> int \<Rightarrow> error + pyfloat" where
  "int_true_div a b =
     (if b = 0 then Inl ZeroDivisionError
      else case to_double (of_int a / of_int b) of
             Finite r \<Rightarrow> Inr (Finite r)
           | _ \<Rightarrow> Inl OverflowError)"

text \<open>\<open>x * n\<close> for a float \<open>x\<close> and the int literal \<open>100\<close>, which is converted exactly.\<close>

fun float_mul :: "pyfloat \<Rightarrow> rat \<Rightarrow> pyfloat" where
  "float_mul (Finite x) y = to_double (x * y)"
| "float_mul PInf y = (if 0 < y then PInf else if y < 0 then NInf else NaN)"
| "float_mul NInf y = (if 0 < y then NInf else if y < 0 then PInf else NaN)"
| "float_mul NaN y = NaN"

text \<open>
  \<open>round(x, 2)\<close>: the exact value of \<open>x\<close> is rounded to two decimals, ties to even, and
  the decimal is read back as the nearest double. Infinities and NaN are returned as
  they are.
\<close>

fun round2 :: "pyfloat \<Rightarrow> pyfloat" where
  "round2 (Finite x) = to_double (of_int (round_half_even (x * 100)) / 100)"
| "round2 PInf = PInf"
| "round2 NInf = NInf"
| "round2 NaN = NaN"

subsection \<open>JSON values of an untyped \<open>Dict\<close>\<close>

datatype jvalue =
    JNull
  | JBool bool
  | JInt int
  | JFloat pyfloat
  | JStr string
  | JArr "jvalue list"
  | JObj "(string \<times> jvalue) list"

type_synonym pydict = "(string \<times> jvalue) list"

section \<open>Data models\<close>

record Booking =
  booking_id :: string
  vehicle_id :: string
  issue :: string
  part_required :: "string option"
  date :: string
  status :: string
  replaced_part_sku :: "string option"
  failure_type :: "string option"
  source_batch_id :: "string option"

record ServiceCenter =
  centerId :: string
  center_name :: string
  location :: string
  phone :: string
  capacity :: int
  specializations :: "string list"
  bookings :: "Booking list"
  is_active :: bool

record Vendor =
  vendor_id :: string
  name :: string
  category :: string
  contact :: string
  durability_score :: pyfloat

record BatchPart =
  part_sku :: string
  part_name :: string
  quantity :: int
  failures_logged :: int

record BatchAllocation =
  batch_allocation_id :: string
  company_name :: string
  vendor_details :: pydict
  batch_info :: pydict
  parts_manifest :: "BatchPart list"

text \<open>
  \<open>Vendor(...)\<close> as the request layer builds it: \<open>durability_score\<close> is the one field
  with a default, \<open>100.0\<close>, taken when the body omits it.
\<close>

definition Vendor_init :: "string \<Rightarrow> string \<Rightarrow> string \<Rightarrow> string \<Rightarrow> pyfloat option \<Rightarrow> Vendor" where
  "Vendor_init vid nm cat con score =
     \<lparr>vendor_id = vid, name = nm, category = cat, contact = con,
      durability_score = (case score of None \<Rightarrow> Finite 100 | Some x \<Rightarrow> x)\<rparr>"

section \<open>The document store\<close>

text \<open>
  A collection is the list of its documents in insertion order; a document is the stored
  model together with the \<open>_id\<close> the driver generated for it. The three collections are
  the ones \<open>main.py\<close> opens. Stored integers are Python ints; the 64-bit limit of the
  storage encoding is not modelled.
\<close>

datatype objectid = ObjectId string

type_synonym 'd collection = "(objectid \<times> 'd) list"

record db =
  admin_collection :: "ServiceCenter collection"
  vendor_collection :: "Vendor collection"
  batch_collection :: "BatchAllocation collection"

definition empty_db :: db where
  "empty_db = \<lparr>admin_collection = [], vendor_collection = [], batch_collection = []\<rparr>"

text \<open>\<open>find_one(q)\<close>: the first document that satisfies the query, or \<open>None\<close>.\<close>

definition find_one :: "('d \<Rightarrow> bool) \<Rightarrow> 'd collection \<Rightarrow> (objectid \<times> 'd) option" where
  "find_one q coll = List.find (\<lambda>doc. q (snd doc)) coll"

text \<open>\<open>find(q)\<close>: the cursor over every document that satisfies the query.\<close>

definition find_cursor :: "('d \<Rightarrow> bool) \<Rightarrow> 'd collection \<Rightarrow> (objectid \<times> 'd) list" where
  "find_cursor q coll = filter (\<lambda>doc. q (snd doc)) coll"

text \<open>\<open>insert_one(d)\<close>, with the \<open>_id\<close> the driver generates as a parameter.\<close>

definition insert_one :: "objectid \<Rightarrow> 'd \<Rightarrow> 'd collection \<Rightarrow> 'd collection" where
  "insert_one oid d coll = coll @ [(oid, d)]"

text \<open>
  The equality query \<open>{"vendor_details.vendor_id": v}\<close> for a string \<open>v\<close>: the key is
  present and holds that string, or holds an array with that string among its elements.
\<close>

fun query_eq_str :: "jvalue option \<Rightarrow> string \<Rightarrow> bool" where
  "query_eq_str (Some (JStr s)) v = (s = v)"
| "query_eq_str (Some (JArr xs)) v = (JStr v \<in> set xs)"
| "query_eq_str _ v = False"

definition from_vendor :: "string \<Rightarrow> BatchAllocation \<Rightarrow> bool" where
  "from_vendor v b = query_eq_str (map_of (vendor_details b) ''vendor_id'') v"

text \<open>The array query \<open>{"parts_manifest.part_sku": sku}\<close>: some element has that SKU.\<close>

definition has_sku :: "string \<Rightarrow> BatchAllocation \<Rightarrow> bool" where
  "has_sku sku b = list_ex (\<lambda>p. part_sku p = sku) (parts_manifest b)"

text \<open>
  \<open>{"$inc": {"parts_manifest.$.failures_logged": 1}}\<close>: the positional operator stands
  for the first array element that matched the query.
\<close>

definition inc_failures :: "BatchPart \<Rightarrow> BatchPart" where
  "inc_failures p = p\<lparr>failures_logged := failures_logged p + 1\<rparr>"

fun inc_positional :: "string \<Rightarrow> BatchPart list \<Rightarrow> BatchPart list" where
  "inc_positional sku [] = []"
| "inc_positional sku (p # ps) =
     (if part_sku p = sku then inc_failures p # ps else p # inc_positional sku ps)"

text \<open>
  \<open>update_one({"batch_allocation_id": bid, "parts_manifest.part_sku": sku}, {"$inc": ...})\<close>:
  the first document that satisfies both conditions of the filter is updated; the result
  is the collection and \<open>modified_count\<close>.
\<close>

definition update_filter :: "string \<Rightarrow> string \<Rightarrow> BatchAllocation \<Rightarrow> bool" where
  "update_filter bid sku b \<longleftrightarrow> batch_allocation_id b = bid \<and> has_sku sku b"

fun update_one_inc :: "string \<Rightarrow> string \<Rightarrow> BatchAllocation collection
    \<Rightarrow> BatchAllocation collection \<times> nat" where
  "update_one_inc bid sku [] = ([], 0)"
| "update_one_inc bid sku (doc # docs) =
     (if update_filter bid sku (snd doc)
      then ((fst doc, (snd doc)\<lparr>parts_manifest := inc_positional sku (parts_manifest (snd doc))\<rparr>)
              # docs, 1)
      else let (docs', n) = update_one_inc bid sku docs in (doc # docs', n))"

section \<open>The endpoints of \<open>main.py\<close>\<close>

record analytics =
  vendor_name :: string
  calculated_durability_score :: pyfloat
  total_parts_supplied :: int
  total_failures_detected :: int
  batches_analyzed :: nat

datatype response =
    Message string
  | MessageId string string
  | Centers "(string \<times> ServiceCenter) list"
  | Center "string \<times> ServiceCenter"
  | Analytics analytics

type_synonym 'a outcome = "(error + 'a) \<times> db"

text \<open>\<open>str(oid)\<close> and \<open>fix_id\<close>, which works on the copy the driver returned.\<close>

fun str_oid :: "objectid \<Rightarrow> string" where
  "str_oid (ObjectId h) = h"

definition fix_id :: "objectid \<times> 'd \<Rightarrow> string \<times> 'd" where
  "fix_id doc = (str_oid (fst doc), snd doc)"

definition home :: "db \<Rightarrow> response outcome" where
  "home s = (Inr (Message ''Admin API with Vendor Tracing is Online''), s)"

definition register_center :: "objectid \<Rightarrow> db \<Rightarrow> ServiceCenter \<Rightarrow> response outcome" where
  "register_center oid s center =
     (case find_one (\<lambda>c. centerId c = centerId center) (admin_collection s) of
        Some existing \<Rightarrow> (Inl (HTTPException 400 ''Center ID already exists''), s)
      | None \<Rightarrow>
          (Inr (MessageId ''Registered Successfully'' (str_oid oid)),
           s\<lparr>admin_collection := insert_one oid center (admin_collection s)\<rparr>))"

definition get_all_centers :: "db \<Rightarrow> response outcome" where
  "get_all_centers s = (Inr (Centers (map fix_id (find_cursor (\<lambda>c. True) (admin_collection s)))), s)"

definition get_center_details :: "db \<Rightarrow> string \<Rightarrow> response outcome" where
  "get_center_details s center_id =
     (case find_one (\<lambda>c. centerId c = center_id) (admin_collection s) of
        Some center \<Rightarrow> (Inr (Center (fix_id center)), s)
      | None \<Rightarrow> (Inl (HTTPException 404 ''Center Not Found''), s))"

text \<open>
  The regular-expression engine of the store is a parameter: \<open>rx pat subject\<close> tells
  whether \<open>subject\<close> matches \<open>pat\<close> with option \<open>i\<close>.
\<close>

definition get_center_by_name :: "(string \<Rightarrow> string \<Rightarrow> bool) \<Rightarrow> db \<Rightarrow> string \<Rightarrow> response outcome" where
  "get_center_by_name rx s nm =
     (case find_one (\<lambda>c. rx (''^'' @ nm @ ''$'') (center_name c)) (admin_collection s) of
        Some center \<Rightarrow> (Inr (Center (fix_id center)), s)
      | None \<Rightarrow> (Inl (HTTPException 404 ''Service Center with this name not found''), s))"

definition register_vendor :: "objectid \<Rightarrow> db \<Rightarrow> Vendor \<Rightarrow> response outcome" where
  "register_vendor oid s vendor =
     (case find_one (\<lambda>v. vendor_id v = vendor_id vendor) (vendor_collection s) of
        Some existing \<Rightarrow> (Inl (HTTPException 400 ''Vendor ID already exists''), s)
      | None \<Rightarrow>
          (Inr (MessageId ''Vendor Registered'' (str_oid oid)),
           s\<lparr>vendor_collection := insert_one oid vendor (vendor_collection s)\<rparr>))"

definition add_batch :: "objectid \<Rightarrow> db \<Rightarrow> BatchAllocation \<Rightarrow> response outcome" where
  "add_batch oid s batch =
     (case find_one (\<lambda>b. batch_allocation_id b = batch_allocation_id batch) (batch_collection s) of
        Some existing \<Rightarrow> (Inl (HTTPException 400 ''Batch ID already exists''), s)
      | None \<Rightarrow>
          (Inr (MessageId ''Batch Logged Successfully'' (str_oid oid)),
           s\<lparr>batch_collection := insert_one oid batch (batch_collection s)\<rparr>))"

definition report_failure :: "db \<Rightarrow> string \<Rightarrow> string \<Rightarrow> response outcome" where
  "report_failure s batch_id sku =
     (case find_one (\<lambda>b. batch_allocation_id b = batch_id) (batch_collection s) of
        None \<Rightarrow> (Inl (HTTPException 404 ''Batch not found''), s)
      | Some batch \<Rightarrow>
          (let (docs, modified_count) = update_one_inc batch_id sku (batch_collection s);
               s' = s\<lparr>batch_collection := docs\<rparr>
           in if modified_count = 0
              then (Inl (HTTPException 400 ''Part SKU not found in this batch''), s')
              else (Inr (Message ''Failure Logged. Vendor Durability Score Impacted.''), s')))"

text \<open>The two nested loops of \<open>get_vendor_analytics\<close>, with their accumulators.\<close>

fun scan_parts :: "BatchPart list \<Rightarrow> int \<times> int \<Rightarrow> int \<times> int" where
  "scan_parts [] (supplied, failures) = (supplied, failures)"
| "scan_parts (part # parts) (supplied, failures) =
     scan_parts parts (supplied + quantity part, failures + failures_logged part)"

fun scan_batches :: "(objectid \<times> BatchAllocation) list
    \<Rightarrow> (string \<times> BatchAllocation) list \<times> int \<times> int
    \<Rightarrow> (string \<times> BatchAllocation) list \<times> int \<times> int" where
  "scan_batches [] acc = acc"
| "scan_batches (batch # cursor) (batches, supplied, failures) =
     scan_batches cursor
       (case scan_parts (parts_manifest (snd batch)) (supplied, failures) of
          (supplied', failures') \<Rightarrow> (batches @ [fix_id batch], supplied', failures'))"

text \<open>
  \<open>score = 100.0\<close>, replaced by \<open>((supplied - failures) / supplied) * 100\<close> when
  \<open>supplied > 0\<close>.
\<close>

definition raw_score :: "int \<Rightarrow> int \<Rightarrow> error + pyfloat" where
  "raw_score supplied failures =
     (if 0 < supplied
      then (case int_true_div (supplied - failures) supplied of
              Inl e \<Rightarrow> Inl e
            | Inr q \<Rightarrow> Inr (float_mul q 100))
      else Inr (Finite 100))"

definition get_vendor_analytics :: "db \<Rightarrow> string \<Rightarrow> response outcome" where
  "get_vendor_analytics s vid =
     (case find_one (\<lambda>v. vendor_id v = vid) (vendor_collection s) of
        None \<Rightarrow> (Inl (HTTPException 404 ''Vendor not found''), s)
      | Some vendor \<Rightarrow>
          (case scan_batches (find_cursor (from_vendor vid) (batch_collection s)) ([], 0, 0) of
             (batches, total_supplied, total_failures) \<Rightarrow>
               (case raw_score total_supplied total_failures of
                  Inl e \<Rightarrow> (Inl e, s)
                | Inr score \<Rightarrow>
                    (Inr (Analytics
                       \<lparr>vendor_name = name (snd vendor),
                        calculated_durability_score = round2 score,
                        total_parts_supplied = total_supplied,
                        total_failures_detected = total_failures,
                        batches_analyzed = length batches\<rparr>), s))))"

text \<open>One request to the application, and the endpoint that serves it.\<close>

datatype request =
    Home
  | RegisterCenter ServiceCenter
  | GetAllCenters
  | GetCenterDetails string
  | GetCenterByName string
  | RegisterVendor Vendor
  | AddBatch BatchAllocation
  | ReportFailure string string
  | GetVendorAnalytics string

fun handle :: "(string \<Rightarrow> string \<Rightarrow> bool) \<Rightarrow> objectid \<Rightarrow> db \<Rightarrow> request \<Rightarrow> response outcome" where
  "handle rx oid s Home = home s"
| "handle rx oid s (RegisterCenter center) = register_center oid s center"
| "handle rx oid s GetAllCenters = get_all_centers s"
| "handle rx oid s (GetCenterDetails center_id) = get_center_details s center_id"
| "handle rx oid s (GetCenterByName nm) = get_center_by_name rx s nm"
| "handle rx oid s (RegisterVendor vendor) = register_vendor oid s vendor"
| "handle rx oid s (AddBatch batch) = add_batch oid s batch"
| "handle rx oid s (ReportFailure batch_id sku) = report_failure s batch_id sku"
| "handle rx oid s (GetVendorAnalytics vid) = get_vendor_analytics s vid"

section \<open>A concrete ledger\<close>

text \<open>
  The registry and ledger after vendor \<open>V-DENSO-09\<close> is registered and batch
  \<open>TOYOTA_202403A001\<close> is added, used to instantiate the theorems below.
\<close>

definition denso :: Vendor where
  "denso = Vendor_init ''V-DENSO-09'' ''Denso Corporation'' ''Electronics'' ''denso@example.com'' None"

definition spark_plug :: BatchPart where
  "spark_plug = \<lparr>part_sku = ''90919-01191'', part_name = ''Spark Plug'', quantity = 100,
     failures_logged = 0\<rparr>"

definition toyota_batch :: BatchAllocation where
  "toyota_batch = \<lparr>batch_allocation_id = ''TOYOTA_202403A001'', company_name = ''Toyota'',
     vendor_details = [(''vendor_id'', JStr ''V-DENSO-09'')], batch_info = [],
     parts_manifest = [spark_plug]\<rparr>"

definition denso_db :: db where
  "denso_db = \<lparr>admin_collection = [],
     vendor_collection = [(ObjectId ''65f0a1'', denso)],
     batch_collection = [(ObjectId ''65f0b1'', toyota_batch)]\<rparr>"

definition hero_hub :: ServiceCenter where
  "hero_hub = \<lparr>centerId = ''SC-DEL-01'', center_name = ''Hero Hub Delhi'', location = ''Delhi'',
     phone = ''9988776655'', capacity = 20, specializations = [''Engine''], bookings = [],
     is_active = True\<rparr>"

section \<open>Sequences of requests\<close>

text \<open>
  Requests served one after the other, each with the \<open>_id\<close> the driver would generate
  for an insert: the responses in order, and the final store.
\<close>

fun run :: "(string \<Rightarrow> string \<Rightarrow> bool) \<Rightarrow> db \<Rightarrow> (objectid \<times> request) list
    \<Rightarrow> (error + response) list \<times> db" where
  "run rx s [] = ([], s)"
| "run rx s (call # calls) =
     (case handle rx (fst call) s (snd call) of
        (r, s') \<Rightarrow> (case run rx s' calls of (rs, s'') \<Rightarrow> (r # rs, s'')))"

section \<open>Vocabulary for the effect of a failure report\<close>

text \<open>\<open>first_match P xs i\<close>: \<open>i\<close> is the position of the first element of \<open>xs\<close> with \<open>P\<close>.\<close>

definition first_match :: "('a \<Rightarrow> bool) \<Rightarrow> 'a list \<Rightarrow> nat \<Rightarrow> bool" where
  "first_match P xs i \<longleftrightarrow> i < length xs \<and> P (xs ! i) \<and> list_all (\<lambda>x. \<not> P x) (take i xs)"

text \<open>
  The ledger with one more failure logged on entry \<open>j\<close> of the manifest of document \<open>i\<close>,
  and nothing else changed.
\<close>

definition increment_at :: "nat \<Rightarrow> nat \<Rightarrow> BatchAllocation collection \<Rightarrow> BatchAllocation collection" where
  "increment_at i j docs =
     docs[i := (fst (docs ! i),
       (snd (docs ! i))\<lparr>parts_manifest :=
          (parts_manifest (snd (docs ! i)))[j := inc_failures (parts_manifest (snd (docs ! i)) ! j)]\<rparr>)]"

text \<open>A ledger whose one batch lists the spark-plug SKU twice.\<close>

definition twin_db :: db where
  "twin_db = \<lparr>admin_collection = [], vendor_collection = [(ObjectId ''65f0a1'', denso)],
     batch_collection = [(ObjectId ''65f0b2'',
       toyota_batch\<lparr>parts_manifest :=
         [spark_plug,
          \<lparr>part_sku = ''04465-33450'', part_name = ''Brake Pad'', quantity = 40, failures_logged = 2\<rparr>,
          spark_plug\<lparr>quantity := 50, failures_logged := 5\<rparr>]\<rparr>)]\<rparr>"

text \<open>Entry \<open>j\<close> of the manifest of the \<open>i\<close>-th batch document of the ledger.\<close>

definition manifest_entry :: "db \<Rightarrow> nat \<Rightarrow> nat \<Rightarrow> BatchPart" where
  "manifest_entry s i j = parts_manifest (snd (batch_collection s ! i)) ! j"

section \<open>Concurrent registrations\<close>

text \<open>
  \<open>register_vendor\<close> awaits two store operations, the \<open>find_one\<close> that checks for the id
  and the \<open>insert_one\<close>; other calls may run between them. A call is at
  \<open>Register_Called\<close> before the check, at \<open>Register_Checked\<close> between the check and the
  insert, and at \<open>Register_Returned r\<close> once it has raised or returned \<open>r\<close>.
\<close>

datatype register_state = Register_Called | Register_Checked | Register_Returned "error + response"

text \<open>The next store operation of a registration, with what the call does on its result.\<close>

definition register_vendor_step :: "objectid \<Rightarrow> Vendor \<Rightarrow> db \<Rightarrow> register_state
    \<Rightarrow> register_state \<times> db" where
  "register_vendor_step oid vendor s st =
     (case st of
        Register_Called \<Rightarrow>
          (case find_one (\<lambda>v. vendor_id v = vendor_id vendor) (vendor_collection s) of
             Some existing \<Rightarrow>
               (Register_Returned (Inl (HTTPException 400 ''Vendor ID already exists'')), s)
           | None \<Rightarrow> (Register_Checked, s))
      | Register_Checked \<Rightarrow>
          (Register_Returned (Inr (MessageId ''Vendor Registered'' (str_oid oid))),
           s\<lparr>vendor_collection := insert_one oid vendor (vendor_collection s)\<rparr>)
      | Register_Returned r \<Rightarrow> (st, s))"



section \<open>The scoring rule as the specification words it\<close>

text \<open>
  The manifest entries of every batch that the ledger's \<open>vendor_details.vendor_id\<close> query
  returns for the vendor, and the two totals over them.
\<close>

definition vendor_parts :: "db \<Rightarrow> string \<Rightarrow> BatchPart list" where
  "vendor_parts s vid =
     concat (map (\<lambda>doc. parts_manifest (snd doc)) (find_cursor (from_vendor vid) (batch_collection s)))"

definition spec_total_supplied :: "db \<Rightarrow> string \<Rightarrow> int" where
  "spec_total_supplied s vid = sum_list (map quantity (vendor_parts s vid))"

definition spec_total_failures :: "db \<Rightarrow> string \<Rightarrow> int" where
  "spec_total_failures s vid = sum_list (map failures_logged (vendor_parts s vid))"

text \<open>
  The specification's score: \<open>100.0\<close> when the total supplied is zero, otherwise
  \<open>((supplied - failures) / supplied) * 100\<close> rounded to two decimals.
\<close>

definition spec_score :: "int \<Rightarrow> int \<Rightarrow> error + pyfloat" where
  "spec_score supplied failures =
     (if supplied = 0 then Inr (Finite 100)
      else case int_true_div (supplied - failures) supplied of
             Inl e \<Rightarrow> Inl e
           | Inr q \<Rightarrow> Inr (round2 (float_mul q 100)))"

text \<open>A ledger whose one batch has a negative quantity, as \<open>quantity: int\<close> admits.\<close>

definition returns_db :: db where
  "returns_db = \<lparr>admin_collection = [],
     vendor_collection = [(ObjectId ''65f0a1'', denso)],
     batch_collection = [(ObjectId ''65f0b3'',
       toyota_batch\<lparr>parts_manifest := [spark_plug\<lparr>quantity := - 4, failures_logged := 1\<rparr>]\<rparr>)]\<rparr>"

section \<open>Concurrent failure reports\<close>

text \<open>
  Requests are served concurrently and a coroutine gives way at each \<open>await\<close>, so calls
  interleave between their store operations; the store applies each single-document
  operation atomically. A call of \<open>report_failure\<close> is at \<open>Called\<close> before its
  \<open>find_one\<close>, at \<open>Found\<close> between the batch check and its \<open>update_one\<close>, and at
  \<open>Returned r\<close> once it has raised or returned \<open>r\<close>.
\<close>

datatype call_state = Called | Found | Returned "error + response"

record report_call =
  call_batch_id :: string
  call_part_sku :: string
  call_at :: call_state

text \<open>The next store operation of a call, with what the call does on its result.\<close>

definition report_failure_step :: "db \<Rightarrow> report_call \<Rightarrow> report_call \<times> db" where
  "report_failure_step s c =
     (case call_at c of
        Called \<Rightarrow>
          (case find_one (\<lambda>b. batch_allocation_id b = call_batch_id c) (batch_collection s) of
             None \<Rightarrow> (c\<lparr>call_at := Returned (Inl (HTTPException 404 ''Batch not found''))\<rparr>, s)
           | Some batch \<Rightarrow> (c\<lparr>call_at := Found\<rparr>, s))
      | Found \<Rightarrow>
          (let (docs, modified_count) =
                 update_one_inc (call_batch_id c) (call_part_sku c) (batch_collection s);
               s' = s\<lparr>batch_collection := docs\<rparr>
           in if modified_count = 0
              then (c\<lparr>call_at := Returned (Inl (HTTPException 400 ''Part SKU not found in this batch''))\<rparr>, s')
              else (c\<lparr>call_at := Returned (Inr (Message ''Failure Logged. Vendor Durability Score Impacted.''))\<rparr>, s'))
      | Returned r \<Rightarrow> (c, s))"

fun returned :: "call_state \<Rightarrow> bool" where
  "returned (Returned r) = True"
| "returned _ = False"

fun succeeded :: "call_state \<Rightarrow> bool" where
  "succeeded (Returned (Inr r)) = True"
| "succeeded _ = False"

text \<open>
  One step of the system: some pending call of the pool advances by one store operation,
  or another endpoint performs its write, which for \<open>add_batch\<close>, \<open>register_vendor\<close> and
  \<open>register_center\<close> is an \<open>insert_one\<close>. The other endpoints only read.
\<close>

inductive interleave :: "db \<times> report_call list \<Rightarrow> db \<times> report_call list \<Rightarrow> bool" where
  advance: "k < length cs \<Longrightarrow> \<not> returned (call_at (cs ! k)) \<Longrightarrow>
     report_failure_step s (cs ! k) = (c', s') \<Longrightarrow> interleave (s, cs) (s', cs[k := c'])"
| insert_batch:
    "interleave (s, cs) (s\<lparr>batch_collection := insert_one oid batch (batch_collection s)\<rparr>, cs)"
| insert_vendor:
    "interleave (s, cs) (s\<lparr>vendor_collection := insert_one oid vendor (vendor_collection s)\<rparr>, cs)"
| insert_center:
    "interleave (s, cs) (s\<lparr>admin_collection := insert_one oid center (admin_collection s)\<rparr>, cs)"

text \<open>A schedule names the call that advances next; a finished or absent call is skipped.\<close>

fun run_schedule :: "db \<times> report_call list \<Rightarrow> nat list \<Rightarrow> db \<times> report_call list" where
  "run_schedule cfg [] = cfg"
| "run_schedule (s, cs) (k # ks) =
     (if k < length cs \<and> \<not> returned (call_at (cs ! k))
      then (case report_failure_step s (cs ! k) of (c', s') \<Rightarrow> run_schedule (s', cs[k := c']) ks)
      else run_schedule (s, cs) ks)"

text \<open>The calls against one (batch id, SKU) pair that have returned successfully.\<close>

definition succeeded_for :: "string \<Rightarrow> string \<Rightarrow> report_call \<Rightarrow> bool" where
  "succeeded_for bid sku c \<longleftrightarrow>
     call_batch_id c = bid \<and> call_part_sku c = sku \<and> succeeded (call_at c)"

text \<open>What the filters read of a ledger: batch ids and the SKUs of each manifest.\<close>

definition ledger_keys :: "BatchAllocation collection \<Rightarrow> (string \<times> string list) list" where
  "ledger_keys docs =
     map (\<lambda>doc. (batch_allocation_id (snd doc), map part_sku (parts_manifest (snd doc)))) docs"

text \<open>Two concurrent reports against the spark plugs of \<open>denso_db\<close>.\<close>

definition two_calls :: "report_call list" where
  "two_calls = replicate 2 \<lparr>call_batch_id = ''TOYOTA_202403A001'', call_part_sku = ''90919-01191'',
     call_at = Called\<rparr>"

section \<open>Properties of the store operations\<close>

lemma has_sku_iff: "has_sku sku b \<longleftrightarrow> sku \<in> part_sku ` set (parts_manifest b)"
  by (auto simp: has_sku_def list_ex_iff)

lemma find_one_None_iff: "find_one q coll = None \<longleftrightarrow> (\<forall>doc \<in> set coll. \<not> q (snd doc))"
  by (auto simp: find_one_def find_None_iff)

lemma find_one_Some_iff:
  "(\<exists>doc. find_one q coll = Some doc) \<longleftrightarrow> (\<exists>doc \<in> set coll. q (snd doc))"
  using find_one_None_iff [of q coll] by (cases "find_one q coll") auto

lemma first_match_0: "xs \<noteq> [] \<Longrightarrow> P (xs ! 0) \<Longrightarrow> first_match P xs 0"
  by (simp add: first_match_def)

lemma first_match_Suc: "\<not> P x \<Longrightarrow> first_match P xs i \<Longrightarrow> first_match P (x # xs) (Suc i)"
  by (simp add: first_match_def)

lemma first_match_unique: "first_match P xs i \<Longrightarrow> first_match P xs j \<Longrightarrow> i = j"
proof (rule ccontr)
  assume i: "first_match P xs i" and j: "first_match P xs j" and "i \<noteq> j"
  then consider "i < j" | "j < i" by linarith
  then show False
  proof cases
    case 1
    with i j have "xs ! i \<in> set (take j xs)"
      by (auto simp: first_match_def in_set_conv_nth intro!: exI [of _ i])
    with i j show False by (auto simp: first_match_def list_all_iff)
  next
    case 2
    with i j have "xs ! j \<in> set (take i xs)"
      by (auto simp: first_match_def in_set_conv_nth intro!: exI [of _ j])
    with i j show False by (auto simp: first_match_def list_all_iff)
  qed
qed

lemma first_match_before: "first_match P xs i \<Longrightarrow> k < i \<Longrightarrow> \<not> P (xs ! k)"
proof -
  assume i: "first_match P xs i" and k: "k < i"
  then have "xs ! k \<in> set (take i xs)"
    by (auto simp: first_match_def in_set_conv_nth intro!: exI [of _ k])
  with i show ?thesis by (auto simp: first_match_def list_all_iff)
qed

lemma update_one_inc_no_match:
  "\<forall>doc \<in> set docs. \<not> update_filter bid sku (snd doc)
   \<Longrightarrow> update_one_inc bid sku docs = (docs, 0)"
  by (induction docs) auto

lemma inc_positional_first:
  "list_ex (\<lambda>p. part_sku p = sku) ps \<Longrightarrow>
   \<exists>j. first_match (\<lambda>p. part_sku p = sku) ps j \<and>
     inc_positional sku ps = ps[j := inc_failures (ps ! j)]"
proof (induction ps)
  case Nil
  then show ?case by simp
next
  case (Cons p ps)
  show ?case
  proof (cases "part_sku p = sku")
    case True
    then have "first_match (\<lambda>p. part_sku p = sku) (p # ps) 0"
      by (intro first_match_0) simp_all
    moreover from True
    have "inc_positional sku (p # ps) = (p # ps)[0 := inc_failures ((p # ps) ! 0)]"
      by simp
    ultimately show ?thesis by blast
  next
    case False
    with Cons.prems have "list_ex (\<lambda>p. part_sku p = sku) ps" by simp
    from Cons.IH [OF this] obtain j where j: "first_match (\<lambda>p. part_sku p = sku) ps j"
      "inc_positional sku ps = ps[j := inc_failures (ps ! j)]"
      by blast
    from False j(1) have "first_match (\<lambda>p. part_sku p = sku) (p # ps) (Suc j)"
      by (intro first_match_Suc)
    moreover from False j(2)
    have "inc_positional sku (p # ps) = (p # ps)[Suc j := inc_failures ((p # ps) ! Suc j)]"
      by simp
    ultimately show ?thesis by blast
  qed
qed

lemma update_one_inc_first:
  "\<exists>doc \<in> set docs. update_filter bid sku (snd doc) \<Longrightarrow>
   \<exists>i j. first_match (\<lambda>doc. update_filter bid sku (snd doc)) docs i \<and>
     first_match (\<lambda>p. part_sku p = sku) (parts_manifest (snd (docs ! i))) j \<and>
     update_one_inc bid sku docs = (increment_at i j docs, 1)"
proof (induction docs)
  case Nil
  then show ?case by simp
next
  case (Cons d docs)
  show ?case
  proof (cases "update_filter bid sku (snd d)")
    case True
    then have "list_ex (\<lambda>p. part_sku p = sku) (parts_manifest (snd d))"
      by (simp add: update_filter_def has_sku_def)
    from inc_positional_first [OF this] obtain j
      where j: "first_match (\<lambda>p. part_sku p = sku) (parts_manifest (snd d)) j"
        "inc_positional sku (parts_manifest (snd d)) =
           (parts_manifest (snd d))[j := inc_failures (parts_manifest (snd d) ! j)]"
      by blast
    from True have "first_match (\<lambda>doc. update_filter bid sku (snd doc)) (d # docs) 0"
      by (intro first_match_0) simp_all
    moreover from j(1)
    have "first_match (\<lambda>p. part_sku p = sku) (parts_manifest (snd ((d # docs) ! 0))) j"
      by simp
    moreover from True j(2)
    have "update_one_inc bid sku (d # docs) = (increment_at 0 j (d # docs), 1)"
      by (simp add: increment_at_def)
    ultimately show ?thesis by blast
  next
    case False
    with Cons.prems have "\<exists>doc \<in> set docs. update_filter bid sku (snd doc)"
      by auto
    from Cons.IH [OF this] obtain i j
      where ij: "first_match (\<lambda>doc. update_filter bid sku (snd doc)) docs i"
        "first_match (\<lambda>p. part_sku p = sku) (parts_manifest (snd (docs ! i))) j"
        "update_one_inc bid sku docs = (increment_at i j docs, 1)"
      by blast
    from False ij(1)
    have "first_match (\<lambda>doc. update_filter bid sku (snd doc)) (d # docs) (Suc i)"
      by (intro first_match_Suc)
    moreover from ij(2)
    have "first_match (\<lambda>p. part_sku p = sku) (parts_manifest (snd ((d # docs) ! Suc i))) j"
      by simp
    moreover from False ij(3)
    have "update_one_inc bid sku (d # docs) = (increment_at (Suc i) j (d # docs), 1)"
      by (simp add: increment_at_def)
    ultimately show ?thesis by blast
  qed
qed

section \<open>Failure reports that are rejected\<close>

text \<open>
  C5. When no batch of the ledger has the given batch id, \<open>report_failure\<close> raises the
  404 error "Batch not found" and the whole store, the ledger included, is as before.
\<close>

theorem report_failure_unknown_batch:
  assumes "bid \<notin> batch_allocation_id ` snd ` set (batch_collection s)"
  shows "report_failure s bid sku = (Inl (HTTPException 404 ''Batch not found''), s)"
proof -
  from assms have "find_one (\<lambda>b. batch_allocation_id b = bid) (batch_collection s) = None"
    by (auto simp: find_one_None_iff)
  then show ?thesis by (simp add: report_failure_def)
qed

theorem report_failure_unknown_batch_witness:
  "''HONDA_1'' \<notin> batch_allocation_id ` snd ` set (batch_collection denso_db) \<and>
   report_failure denso_db ''HONDA_1'' ''90919-01191'' =
     (Inl (HTTPException 404 ''Batch not found''), denso_db)"
  using report_failure_unknown_batch [of "''HONDA_1''" denso_db "''90919-01191''"]
  by (simp add: denso_db_def toyota_batch_def)

text \<open>
  C6. When a batch with the given id exists and no manifest entry of a batch with that
  id has the given SKU, \<open>report_failure\<close> raises the 400 error "Part SKU not found in
  this batch" and the store is as before, so every \<open>failures_logged\<close> is unchanged.
\<close>

theorem report_failure_unknown_sku:
  assumes "bid \<in> batch_allocation_id ` snd ` set (batch_collection s)"
    and "\<forall>doc \<in> set (batch_collection s).
           batch_allocation_id (snd doc) = bid \<longrightarrow> sku \<notin> part_sku ` set (parts_manifest (snd doc))"
  shows "report_failure s bid sku =
           (Inl (HTTPException 400 ''Part SKU not found in this batch''), s)"
proof -
  from assms(1) obtain doc
    where "find_one (\<lambda>b. batch_allocation_id b = bid) (batch_collection s) = Some doc"
    using find_one_Some_iff [of "\<lambda>b. batch_allocation_id b = bid" "batch_collection s"] by auto
  moreover from assms(2) have "update_one_inc bid sku (batch_collection s) = (batch_collection s, 0)"
    by (intro update_one_inc_no_match) (simp add: update_filter_def has_sku_iff)
  ultimately show ?thesis by (simp add: report_failure_def)
qed

theorem report_failure_unknown_sku_witness:
  "''TOYOTA_202403A001'' \<in> batch_allocation_id ` snd ` set (batch_collection denso_db) \<and>
   batch_collection denso_db = [(ObjectId ''65f0b1'', toyota_batch)] \<and>
   ''04465-33450'' \<notin> part_sku ` set (parts_manifest toyota_batch) \<and>
   report_failure denso_db ''TOYOTA_202403A001'' ''04465-33450'' =
     (Inl (HTTPException 400 ''Part SKU not found in this batch''), denso_db)"
  using report_failure_unknown_sku [of "''TOYOTA_202403A001''" denso_db "''04465-33450''"]
  by (simp add: denso_db_def toyota_batch_def spark_plug_def)

section \<open>The scoring engine\<close>

lemma raw_score_100_3: "raw_score 100 3 = Inr (Finite 97)"
  by code_simp

lemma raw_score_100_0: "raw_score 100 0 = Inr (Finite 100)"
  by code_simp

lemma round2_97: "round2 (Finite 97) = Finite 97"
  by code_simp

lemma round2_100: "round2 (Finite 100) = Finite 100"
  by code_simp

text \<open>
  C2. From the empty store: registering vendor \<open>V-DENSO-09\<close> with score snapshot 100.0,
  adding batch \<open>TOYOTA_202403A001\<close> of that vendor with one manifest entry of 100 spark
  plugs and no failure, and reporting three failures of that SKU all succeed, and the
  analytics of the vendor are then 100 parts supplied, 3 failures, score 97.0, one batch.
  The fields the scenario leaves open (names, contact, batch info, generated ids) are
  arbitrary.
\<close>

theorem denso_scenario:
  "fst (run rx empty_db
     [(o1, RegisterVendor (Vendor_init ''V-DENSO-09'' nm cat con (Some (Finite 100)))),
      (o2, AddBatch \<lparr>batch_allocation_id = ''TOYOTA_202403A001'', company_name = co,
             vendor_details = [(''vendor_id'', JStr ''V-DENSO-09'')], batch_info = info,
             parts_manifest = [\<lparr>part_sku = ''90919-01191'', part_name = ''Spark Plug'',
               quantity = 100, failures_logged = 0\<rparr>]\<rparr>),
      (o3, ReportFailure ''TOYOTA_202403A001'' ''90919-01191''),
      (o4, ReportFailure ''TOYOTA_202403A001'' ''90919-01191''),
      (o5, ReportFailure ''TOYOTA_202403A001'' ''90919-01191''),
      (o6, GetVendorAnalytics ''V-DENSO-09'')])
   = [Inr (MessageId ''Vendor Registered'' (str_oid o1)),
      Inr (MessageId ''Batch Logged Successfully'' (str_oid o2)),
      Inr (Message ''Failure Logged. Vendor Durability Score Impacted.''),
      Inr (Message ''Failure Logged. Vendor Durability Score Impacted.''),
      Inr (Message ''Failure Logged. Vendor Durability Score Impacted.''),
      Inr (Analytics \<lparr>vendor_name = nm, calculated_durability_score = Finite 97,
        total_parts_supplied = 100, total_failures_detected = 3, batches_analyzed = 1\<rparr>)]"
  by (simp add: empty_db_def Vendor_init_def register_vendor_def add_batch_def
      report_failure_def get_vendor_analytics_def find_one_def find_cursor_def insert_one_def
      from_vendor_def update_filter_def has_sku_def inc_failures_def raw_score_100_3 round2_97
      del: round2.simps)

text \<open>
  C8. \<open>get_vendor_analytics\<close> returns the store as it received it, a second run on the
  store the first one returned gives the same result, and the result depends on the
  vendor and batch collections only.
\<close>

theorem get_vendor_analytics_read_only:
  "snd (get_vendor_analytics s vid) = s \<and>
   get_vendor_analytics (snd (get_vendor_analytics s vid)) vid = get_vendor_analytics s vid \<and>
   (vendor_collection t = vendor_collection s \<and> batch_collection t = batch_collection s \<longrightarrow>
      fst (get_vendor_analytics t vid) = fst (get_vendor_analytics s vid))"
proof -
  have "snd (get_vendor_analytics s vid) = s"
    by (simp add: get_vendor_analytics_def split: option.splits prod.splits sum.splits)
  moreover have "fst (get_vendor_analytics t vid) = fst (get_vendor_analytics s vid)"
    if "vendor_collection t = vendor_collection s" "batch_collection t = batch_collection s"
    using that by (simp add: get_vendor_analytics_def split: option.splits prod.splits sum.splits)
  ultimately show ?thesis by simp
qed

theorem get_vendor_analytics_read_only_witness:
  "vendor_collection (denso_db\<lparr>admin_collection := [(ObjectId ''65f0c1'', hero_hub)]\<rparr>) =
     vendor_collection denso_db \<and>
   batch_collection (denso_db\<lparr>admin_collection := [(ObjectId ''65f0c1'', hero_hub)]\<rparr>) =
     batch_collection denso_db \<and>
   fst (get_vendor_analytics (denso_db\<lparr>admin_collection := [(ObjectId ''65f0c1'', hero_hub)]\<rparr>)
        ''V-DENSO-09'') =
   fst (get_vendor_analytics denso_db ''V-DENSO-09'')"
  using get_vendor_analytics_read_only [of denso_db "''V-DENSO-09''"
      "denso_db\<lparr>admin_collection := [(ObjectId ''65f0c1'', hero_hub)]\<rparr>"]
  by simp

section \<open>The effect of a failure report\<close>

lemma report_failure_success:
  assumes "\<exists>doc \<in> set (batch_collection s). update_filter bid sku (snd doc)"
  shows "\<exists>i j. first_match (\<lambda>doc. update_filter bid sku (snd doc)) (batch_collection s) i \<and>
     first_match (\<lambda>p. part_sku p = sku) (parts_manifest (snd (batch_collection s ! i))) j \<and>
     report_failure s bid sku =
       (Inr (Message ''Failure Logged. Vendor Durability Score Impacted.''),
        s\<lparr>batch_collection := increment_at i j (batch_collection s)\<rparr>)"
proof -
  from assms have "\<exists>doc \<in> set (batch_collection s). batch_allocation_id (snd doc) = bid"
    by (auto simp: update_filter_def)
  then obtain doc
    where found: "find_one (\<lambda>b. batch_allocation_id b = bid) (batch_collection s) = Some doc"
    using find_one_Some_iff [of "\<lambda>b. batch_allocation_id b = bid" "batch_collection s"] by auto
  from update_one_inc_first [OF assms] obtain i j
    where ij: "first_match (\<lambda>doc. update_filter bid sku (snd doc)) (batch_collection s) i"
      "first_match (\<lambda>p. part_sku p = sku) (parts_manifest (snd (batch_collection s ! i))) j"
      "update_one_inc bid sku (batch_collection s) = (increment_at i j (batch_collection s), 1)"
    by blast
  from found ij(3) have "report_failure s bid sku =
       (Inr (Message ''Failure Logged. Vendor Durability Score Impacted.''),
        s\<lparr>batch_collection := increment_at i j (batch_collection s)\<rparr>)"
    by (simp add: report_failure_def)
  with ij(1,2) show ?thesis by blast
qed

lemma report_failure_rejected:
  assumes "\<forall>doc \<in> set (batch_collection s). \<not> update_filter bid sku (snd doc)"
  shows "\<exists>e. report_failure s bid sku = (Inl e, s)"
proof -
  from assms have "update_one_inc bid sku (batch_collection s) = (batch_collection s, 0)"
    by (rule update_one_inc_no_match)
  then show ?thesis
    by (simp add: report_failure_def split: option.splits)
qed

lemma increment_at_length: "length (increment_at i j docs) = length docs"
  by (simp add: increment_at_def)

lemma increment_at_other: "k \<noteq> i \<Longrightarrow> increment_at i j docs ! k = docs ! k"
  by (simp add: increment_at_def)

lemma increment_at_doc:
  "i < length docs \<Longrightarrow>
   increment_at i j docs ! i = (fst (docs ! i),
       (snd (docs ! i))\<lparr>parts_manifest :=
          (parts_manifest (snd (docs ! i)))[j := inc_failures (parts_manifest (snd (docs ! i)) ! j)]\<rparr>)"
  by (simp add: increment_at_def)

text \<open>
  C3. When a batch with the given id has a manifest entry with the given SKU,
  \<open>report_failure\<close> succeeds, and the store it returns differs from the given one in one
  place: entry \<open>j\<close>, with that SKU, of the manifest of document \<open>i\<close>, with that batch id,
  has \<open>failures_logged\<close> one higher. The service centers, the vendors with their stored
  \<open>durability_score\<close>, every other batch document, every other field of document \<open>i\<close>
  and every other entry of its manifest are as before.
\<close>

theorem report_failure_frame:
  assumes "doc \<in> set (batch_collection s)"
    and "batch_allocation_id (snd doc) = bid"
    and "sku \<in> part_sku ` set (parts_manifest (snd doc))"
  shows "\<exists>i j s'. report_failure s bid sku =
           (Inr (Message ''Failure Logged. Vendor Durability Score Impacted.''), s') \<and>
         i < length (batch_collection s) \<and>
         batch_allocation_id (snd (batch_collection s ! i)) = bid \<and>
         j < length (parts_manifest (snd (batch_collection s ! i))) \<and>
         part_sku (parts_manifest (snd (batch_collection s ! i)) ! j) = sku \<and>
         admin_collection s' = admin_collection s \<and>
         vendor_collection s' = vendor_collection s \<and>
         length (batch_collection s') = length (batch_collection s) \<and>
         (\<forall>k < length (batch_collection s). k \<noteq> i \<longrightarrow> batch_collection s' ! k = batch_collection s ! k) \<and>
         fst (batch_collection s' ! i) = fst (batch_collection s ! i) \<and>
         snd (batch_collection s' ! i) = (snd (batch_collection s ! i))
           \<lparr>parts_manifest := parts_manifest (snd (batch_collection s' ! i))\<rparr> \<and>
         length (parts_manifest (snd (batch_collection s' ! i))) =
           length (parts_manifest (snd (batch_collection s ! i))) \<and>
         (\<forall>l < length (parts_manifest (snd (batch_collection s ! i))). l \<noteq> j \<longrightarrow>
            parts_manifest (snd (batch_collection s' ! i)) ! l =
            parts_manifest (snd (batch_collection s ! i)) ! l) \<and>
         parts_manifest (snd (batch_collection s' ! i)) ! j =
           (parts_manifest (snd (batch_collection s ! i)) ! j)
             \<lparr>failures_logged := failures_logged (parts_manifest (snd (batch_collection s ! i)) ! j) + 1\<rparr>"
proof -
  let ?docs = "batch_collection s"
  from assms have "\<exists>doc \<in> set ?docs. update_filter bid sku (snd doc)"
    by (auto simp: update_filter_def has_sku_iff)
  from report_failure_success [OF this] obtain i j
    where i: "first_match (\<lambda>doc. update_filter bid sku (snd doc)) ?docs i"
      and j: "first_match (\<lambda>p. part_sku p = sku) (parts_manifest (snd (?docs ! i))) j"
      and rf: "report_failure s bid sku =
       (Inr (Message ''Failure Logged. Vendor Durability Score Impacted.''),
        s\<lparr>batch_collection := increment_at i j ?docs\<rparr>)"
    by blast
  let ?s' = "s\<lparr>batch_collection := increment_at i j ?docs\<rparr>"
  from i have il: "i < length ?docs" and ib: "batch_allocation_id (snd (?docs ! i)) = bid"
    by (simp_all add: first_match_def update_filter_def)
  from j have jl: "j < length (parts_manifest (snd (?docs ! i)))"
    and js: "part_sku (parts_manifest (snd (?docs ! i)) ! j) = sku"
    by (simp_all add: first_match_def)
  have doc: "increment_at i j ?docs ! i = (fst (?docs ! i),
       (snd (?docs ! i))\<lparr>parts_manifest :=
          (parts_manifest (snd (?docs ! i)))[j := inc_failures (parts_manifest (snd (?docs ! i)) ! j)]\<rparr>)"
    using il by (simp add: increment_at_doc)
  have "admin_collection ?s' = admin_collection s" "vendor_collection ?s' = vendor_collection s"
    "length (batch_collection ?s') = length ?docs"
    by (simp_all add: increment_at_length)
  moreover have "\<forall>k < length ?docs. k \<noteq> i \<longrightarrow> batch_collection ?s' ! k = ?docs ! k"
    by (simp add: increment_at_other)
  moreover have "fst (batch_collection ?s' ! i) = fst (?docs ! i)"
    "snd (batch_collection ?s' ! i) = (snd (?docs ! i))
           \<lparr>parts_manifest := parts_manifest (snd (batch_collection ?s' ! i))\<rparr>"
    "length (parts_manifest (snd (batch_collection ?s' ! i))) = length (parts_manifest (snd (?docs ! i)))"
    by (simp_all add: doc)
  moreover have "\<forall>l < length (parts_manifest (snd (?docs ! i))). l \<noteq> j \<longrightarrow>
            parts_manifest (snd (batch_collection ?s' ! i)) ! l = parts_manifest (snd (?docs ! i)) ! l"
    by (simp add: doc)
  moreover have "parts_manifest (snd (batch_collection ?s' ! i)) ! j =
           (parts_manifest (snd (?docs ! i)) ! j)
             \<lparr>failures_logged := failures_logged (parts_manifest (snd (?docs ! i)) ! j) + 1\<rparr>"
    using jl by (simp add: doc inc_failures_def)
  ultimately show ?thesis using rf il ib jl js by blast
qed


theorem report_failure_frame_witness:
  "(ObjectId ''65f0b1'', toyota_batch) \<in> set (batch_collection denso_db) \<and>
   batch_allocation_id toyota_batch = ''TOYOTA_202403A001'' \<and>
   ''90919-01191'' \<in> part_sku ` set (parts_manifest toyota_batch) \<and>
   report_failure denso_db ''TOYOTA_202403A001'' ''90919-01191'' =
     (Inr (Message ''Failure Logged. Vendor Durability Score Impacted.''),
      denso_db\<lparr>batch_collection := [(ObjectId ''65f0b1'',
        toyota_batch\<lparr>parts_manifest := [spark_plug\<lparr>failures_logged := 1\<rparr>]\<rparr>)]\<rparr>)"
  using report_failure_frame [of "(ObjectId ''65f0b1'', toyota_batch)" denso_db
      "''TOYOTA_202403A001''" "''90919-01191''"]
  by (simp add: denso_db_def toyota_batch_def spark_plug_def report_failure_def find_one_def
      update_filter_def has_sku_def inc_failures_def)

lemma report_failure_Inr_match:
  assumes "fst (report_failure s bid sku) = Inr r"
  shows "\<exists>doc \<in> set (batch_collection s). update_filter bid sku (snd doc)"
proof (rule ccontr)
  assume "\<not> ?thesis"
  then have "\<forall>doc \<in> set (batch_collection s). \<not> update_filter bid sku (snd doc)" by blast
  from report_failure_rejected [OF this] assms show False by auto
qed

text \<open>
  C10. A successful \<open>report_failure\<close> increments entry \<open>j\<close> of the manifest of the
  updated document, where \<open>j\<close> is the first position with the given SKU; the manifest
  is otherwise as before, so every later entry, a duplicate of the SKU included, is
  unchanged, and so is every other document.
\<close>

theorem report_failure_first_duplicate:
  assumes "fst (report_failure s bid sku) = Inr r"
  shows "\<exists>i j. i < length (batch_collection s) \<and>
         batch_allocation_id (snd (batch_collection s ! i)) = bid \<and>
         j < length (parts_manifest (snd (batch_collection s ! i))) \<and>
         part_sku (parts_manifest (snd (batch_collection s ! i)) ! j) = sku \<and>
         (\<forall>l < j. part_sku (parts_manifest (snd (batch_collection s ! i)) ! l) \<noteq> sku) \<and>
         parts_manifest (snd (batch_collection (snd (report_failure s bid sku)) ! i)) =
           (parts_manifest (snd (batch_collection s ! i)))
             [j := (parts_manifest (snd (batch_collection s ! i)) ! j)
                \<lparr>failures_logged := failures_logged (parts_manifest (snd (batch_collection s ! i)) ! j) + 1\<rparr>] \<and>
         (\<forall>l < length (parts_manifest (snd (batch_collection s ! i))). j < l \<longrightarrow>
            parts_manifest (snd (batch_collection (snd (report_failure s bid sku)) ! i)) ! l =
            parts_manifest (snd (batch_collection s ! i)) ! l) \<and>
         (\<forall>k < length (batch_collection s). k \<noteq> i \<longrightarrow>
            batch_collection (snd (report_failure s bid sku)) ! k = batch_collection s ! k)"
proof -
  let ?docs = "batch_collection s"
  from report_failure_success [OF report_failure_Inr_match [OF assms]] obtain i j
    where i: "first_match (\<lambda>doc. update_filter bid sku (snd doc)) ?docs i"
      and j: "first_match (\<lambda>p. part_sku p = sku) (parts_manifest (snd (?docs ! i))) j"
      and rf: "report_failure s bid sku =
       (Inr (Message ''Failure Logged. Vendor Durability Score Impacted.''),
        s\<lparr>batch_collection := increment_at i j ?docs\<rparr>)"
    by blast
  let ?m = "parts_manifest (snd (?docs ! i))"
  from i have il: "i < length ?docs" and ib: "batch_allocation_id (snd (?docs ! i)) = bid"
    by (simp_all add: first_match_def update_filter_def)
  from j have jl: "j < length ?m" and js: "part_sku (?m ! j) = sku"
    by (simp_all add: first_match_def)
  have first: "\<forall>l < j. part_sku (?m ! l) \<noteq> sku"
    using first_match_before [OF j] by blast
  have m': "parts_manifest (snd (batch_collection (snd (report_failure s bid sku)) ! i)) =
      ?m[j := (?m ! j)\<lparr>failures_logged := failures_logged (?m ! j) + 1\<rparr>]"
    using il by (simp add: rf increment_at_doc inc_failures_def)
  have later: "\<forall>l < length ?m. j < l \<longrightarrow>
      parts_manifest (snd (batch_collection (snd (report_failure s bid sku)) ! i)) ! l = ?m ! l"
    by (simp add: m')
  have others: "\<forall>k < length ?docs. k \<noteq> i \<longrightarrow>
      batch_collection (snd (report_failure s bid sku)) ! k = ?docs ! k"
    by (simp add: rf increment_at_other)
  from il ib jl js first m' later others show ?thesis by blast
qed

theorem report_failure_first_duplicate_witness:
  "fst (report_failure twin_db ''TOYOTA_202403A001'' ''90919-01191'') =
     Inr (Message ''Failure Logged. Vendor Durability Score Impacted.'') \<and>
   map failures_logged (parts_manifest (snd (batch_collection twin_db ! 0))) = [0, 2, 5] \<and>
   map part_sku (parts_manifest (snd (batch_collection twin_db ! 0))) =
     [''90919-01191'', ''04465-33450'', ''90919-01191''] \<and>
   map failures_logged (parts_manifest (snd (batch_collection
     (snd (report_failure twin_db ''TOYOTA_202403A001'' ''90919-01191'')) ! 0))) = [1, 2, 5]"
  using report_failure_first_duplicate [of twin_db "''TOYOTA_202403A001''" "''90919-01191''"
      "Message ''Failure Logged. Vendor Durability Score Impacted.''"]
  by (simp add: twin_db_def toyota_batch_def spark_plug_def report_failure_def find_one_def
      update_filter_def has_sku_def inc_failures_def)

section \<open>The failure counter never decreases\<close>

lemma report_failure_batch_collection:
  "batch_collection (snd (report_failure s bid sku)) = batch_collection s \<or>
   (\<exists>i j. first_match (\<lambda>doc. update_filter bid sku (snd doc)) (batch_collection s) i \<and>
      first_match (\<lambda>p. part_sku p = sku) (parts_manifest (snd (batch_collection s ! i))) j \<and>
      batch_collection (snd (report_failure s bid sku)) = increment_at i j (batch_collection s))"
proof (cases "\<exists>doc \<in> set (batch_collection s). update_filter bid sku (snd doc)")
  case True
  from report_failure_success [OF this] show ?thesis by force
next
  case False
  then have "\<forall>doc \<in> set (batch_collection s). \<not> update_filter bid sku (snd doc)" by blast
  from report_failure_rejected [OF this] show ?thesis by force
qed

lemma handle_batch_collection:
  "batch_collection (snd (handle rx oid s req)) = batch_collection s \<or>
   (\<exists>b. req = AddBatch b \<and>
      batch_collection (snd (handle rx oid s req)) = batch_collection s @ [(oid, b)]) \<or>
   (\<exists>bid sku i j. req = ReportFailure bid sku \<and>
      first_match (\<lambda>doc. update_filter bid sku (snd doc)) (batch_collection s) i \<and>
      first_match (\<lambda>p. part_sku p = sku) (parts_manifest (snd (batch_collection s ! i))) j \<and>
      batch_collection (snd (handle rx oid s req)) = increment_at i j (batch_collection s))"
proof (cases req)
  case (ReportFailure bid sku)
  with report_failure_batch_collection [of s bid sku] show ?thesis by auto
qed (auto simp: home_def register_center_def get_all_centers_def get_center_details_def
    get_center_by_name_def register_vendor_def add_batch_def insert_one_def
    get_vendor_analytics_def split: option.splits prod.splits sum.splits)

lemma manifest_entry_increment_at:
  assumes "i < length docs" "j < length (parts_manifest (snd (docs ! i)))"
  shows "parts_manifest (snd (increment_at i j docs ! i')) ! j' =
     (if i' = i \<and> j' = j then inc_failures (parts_manifest (snd (docs ! i')) ! j')
      else parts_manifest (snd (docs ! i')) ! j')"
  using assms by (cases "i' = i") (auto simp: increment_at_doc increment_at_other)

lemma manifest_length_increment_at:
  "length (parts_manifest (snd (increment_at i j docs ! i'))) = length (parts_manifest (snd (docs ! i')))"
  by (cases "i' = i"; cases "i < length docs") (auto simp: increment_at_def list_update_beyond)

text \<open>
  C9. Whatever request is served (any endpoint of \<open>main.py\<close>), every manifest entry
  of every batch document already in the ledger is still at its position afterwards, and
  its \<open>failures_logged\<close> is not lower than before: the entry is unchanged, or the request
  was a failure report and the entry is the old one with \<open>failures_logged\<close> one higher.
\<close>

theorem failures_logged_monotone:
  assumes "i < length (batch_collection s)"
    and "j < length (parts_manifest (snd (batch_collection s ! i)))"
  shows "i < length (batch_collection (snd (handle rx oid s req))) \<and>
     j < length (parts_manifest (snd (batch_collection (snd (handle rx oid s req)) ! i))) \<and>
     failures_logged (manifest_entry s i j)
       \<le> failures_logged (manifest_entry (snd (handle rx oid s req)) i j) \<and>
     (manifest_entry (snd (handle rx oid s req)) i j = manifest_entry s i j \<or>
      (\<exists>bid sku. req = ReportFailure bid sku) \<and>
      manifest_entry (snd (handle rx oid s req)) i j =
        (manifest_entry s i j)\<lparr>failures_logged := failures_logged (manifest_entry s i j) + 1\<rparr>)"
proof -
  let ?s' = "snd (handle rx oid s req)"
  from handle_batch_collection [of rx oid s req]
  consider (same) "batch_collection ?s' = batch_collection s"
    | (add) b where "batch_collection ?s' = batch_collection s @ [(oid, b)]"
    | (inc) bid sku i' j' where "req = ReportFailure bid sku"
        "first_match (\<lambda>doc. update_filter bid sku (snd doc)) (batch_collection s) i'"
        "first_match (\<lambda>p. part_sku p = sku) (parts_manifest (snd (batch_collection s ! i'))) j'"
        "batch_collection ?s' = increment_at i' j' (batch_collection s)"
    by blast
  then show ?thesis
  proof cases
    case same
    with assms show ?thesis by (simp add: manifest_entry_def)
  next
    case add
    with assms show ?thesis by (simp add: manifest_entry_def nth_append)
  next
    case inc
    from inc(2,3) have l: "i' < length (batch_collection s)"
      "j' < length (parts_manifest (snd (batch_collection s ! i')))"
      by (simp_all add: first_match_def)
    from assms inc(1,4) show ?thesis
      by (simp add: manifest_entry_def increment_at_length manifest_length_increment_at
          manifest_entry_increment_at [OF l] inc_failures_def)
  qed
qed

theorem failures_logged_monotone_witness:
  "(0::nat) < length (batch_collection denso_db) \<and>
   (0::nat) < length (parts_manifest (snd (batch_collection denso_db ! 0))) \<and>
   failures_logged (manifest_entry denso_db 0 0) = 0 \<and>
   failures_logged (manifest_entry
     (snd (handle (\<lambda>pat subject. False) (ObjectId ''65f0d1'') denso_db
        (ReportFailure ''TOYOTA_202403A001'' ''90919-01191''))) 0 0) = 1"
  using failures_logged_monotone [of 0 denso_db 0 "\<lambda>pat subject. False" "ObjectId ''65f0d1''"
      "ReportFailure ''TOYOTA_202403A001'' ''90919-01191''"]
  by (simp add: denso_db_def toyota_batch_def spark_plug_def report_failure_def find_one_def
      update_filter_def has_sku_def inc_failures_def manifest_entry_def)

section \<open>The vendor registry\<close>

text \<open>The endpoint is the check and the insert, one after the other.\<close>

lemma register_vendor_two_steps:
  "(case register_vendor_step oid vendor s Register_Called of
      (st1, s1) \<Rightarrow> register_vendor_step oid vendor s1 st1)
   = (Register_Returned (fst (register_vendor oid s vendor)), snd (register_vendor oid s vendor))"
  by (simp add: register_vendor_step_def register_vendor_def split: option.splits)




section \<open>The durability score\<close>

lemma scan_parts_sum:
  "scan_parts ps (a, b) = (a + sum_list (map quantity ps), b + sum_list (map failures_logged ps))"
  by (induction ps arbitrary: a b) simp_all

lemma scan_batches_sum:
  "scan_batches cur (bs, a, b) =
     (bs @ map fix_id cur,
      a + sum_list (map quantity (concat (map (\<lambda>doc. parts_manifest (snd doc)) cur))),
      b + sum_list (map failures_logged (concat (map (\<lambda>doc. parts_manifest (snd doc)) cur))))"
  by (induction cur arbitrary: bs a b) (simp_all add: scan_parts_sum)

lemma int_true_div_cases:
  "b \<noteq> 0 \<Longrightarrow> int_true_div a b = Inl OverflowError \<or> (\<exists>r. int_true_div a b = Inr (Finite r))"
  by (simp add: int_true_div_def split: pyfloat.splits)

lemma get_vendor_analytics_totals:
  assumes "find_one (\<lambda>v. vendor_id v = vid) (vendor_collection s) = Some vendor"
  shows "fst (get_vendor_analytics s vid) =
     (case raw_score (spec_total_supplied s vid) (spec_total_failures s vid) of
        Inl e \<Rightarrow> Inl e
      | Inr score \<Rightarrow> Inr (Analytics
          \<lparr>vendor_name = name (snd vendor),
           calculated_durability_score = round2 score,
           total_parts_supplied = spec_total_supplied s vid,
           total_failures_detected = spec_total_failures s vid,
           batches_analyzed = length (find_cursor (from_vendor vid) (batch_collection s))\<rparr>))"
  using assms
  by (simp add: get_vendor_analytics_def scan_batches_sum spec_total_supplied_def
      spec_total_failures_def vendor_parts_def split: sum.splits del: round2.simps)

text \<open>
  C1 (amended). For a vendor found in the registry, \<open>get_vendor_analytics\<close> reports the
  totals of \<open>quantity\<close> and \<open>failures_logged\<close> over every manifest entry of every batch the
  \<open>vendor_details.vendor_id\<close> query returns, and the number of those batches. The score
  is \<open>100.0\<close> when the total supplied is zero or negative; otherwise it is
  \<open>((supplied - failures) / supplied) * 100\<close> rounded to two decimals, and the request
  ends in \<open>OverflowError\<close> when the quotient is beyond the range of a float. With no
  batch of the vendor the score is \<open>100.0\<close> and the totals are zero.
\<close>

theorem vendor_analytics_score:
  assumes "find_one (\<lambda>v. vendor_id v = vid) (vendor_collection s) = Some vendor"
  shows "fst (get_vendor_analytics s vid) =
     (if spec_total_supplied s vid \<le> 0
      then Inr (Analytics
          \<lparr>vendor_name = name (snd vendor),
           calculated_durability_score = Finite 100,
           total_parts_supplied = spec_total_supplied s vid,
           total_failures_detected = spec_total_failures s vid,
           batches_analyzed = length (find_cursor (from_vendor vid) (batch_collection s))\<rparr>)
      else case int_true_div (spec_total_supplied s vid - spec_total_failures s vid)
                  (spec_total_supplied s vid) of
             Inl e \<Rightarrow> Inl OverflowError
           | Inr q \<Rightarrow> Inr (Analytics
               \<lparr>vendor_name = name (snd vendor),
                calculated_durability_score = round2 (float_mul q 100),
                total_parts_supplied = spec_total_supplied s vid,
                total_failures_detected = spec_total_failures s vid,
                batches_analyzed = length (find_cursor (from_vendor vid) (batch_collection s))\<rparr>))
   \<and> (find_cursor (from_vendor vid) (batch_collection s) = [] \<longrightarrow>
        fst (get_vendor_analytics s vid) = Inr (Analytics
          \<lparr>vendor_name = name (snd vendor), calculated_durability_score = Finite 100,
           total_parts_supplied = 0, total_failures_detected = 0, batches_analyzed = 0\<rparr>))"
proof -
  let ?ts = "spec_total_supplied s vid" and ?tf = "spec_total_failures s vid"
  have main: "fst (get_vendor_analytics s vid) =
     (if ?ts \<le> 0
      then Inr (Analytics
          \<lparr>vendor_name = name (snd vendor),
           calculated_durability_score = Finite 100,
           total_parts_supplied = ?ts,
           total_failures_detected = ?tf,
           batches_analyzed = length (find_cursor (from_vendor vid) (batch_collection s))\<rparr>)
      else case int_true_div (?ts - ?tf) ?ts of
             Inl e \<Rightarrow> Inl OverflowError
           | Inr q \<Rightarrow> Inr (Analytics
               \<lparr>vendor_name = name (snd vendor),
                calculated_durability_score = round2 (float_mul q 100),
                total_parts_supplied = ?ts,
                total_failures_detected = ?tf,
                batches_analyzed = length (find_cursor (from_vendor vid) (batch_collection s))\<rparr>))"
  proof (cases "?ts \<le> 0")
    case True
    then show ?thesis
      by (simp add: get_vendor_analytics_totals [OF assms] raw_score_def round2_100
          del: round2.simps)
  next
    case False
    then have "?ts \<noteq> 0" by simp
    from int_true_div_cases [OF this, of "?ts - ?tf"] False show ?thesis
      by (auto simp: get_vendor_analytics_totals [OF assms] raw_score_def
          simp del: round2.simps)
  qed
  moreover have "fst (get_vendor_analytics s vid) = Inr (Analytics
          \<lparr>vendor_name = name (snd vendor), calculated_durability_score = Finite 100,
           total_parts_supplied = 0, total_failures_detected = 0, batches_analyzed = 0\<rparr>)"
    if "find_cursor (from_vendor vid) (batch_collection s) = []"
  proof -
    from that have "?ts = 0" "?tf = 0"
      by (simp_all add: spec_total_supplied_def spec_total_failures_def vendor_parts_def)
    with that main show ?thesis by simp
  qed
  ultimately show ?thesis by blast
qed

theorem vendor_analytics_score_witness:
  "find_one (\<lambda>v. vendor_id v = ''V-DENSO-09'') (vendor_collection denso_db) =
     Some (ObjectId ''65f0a1'', denso) \<and>
   spec_total_supplied denso_db ''V-DENSO-09'' = 100 \<and>
   spec_total_failures denso_db ''V-DENSO-09'' = 0 \<and>
   fst (get_vendor_analytics denso_db ''V-DENSO-09'') = Inr (Analytics
     \<lparr>vendor_name = ''Denso Corporation'', calculated_durability_score = Finite 100,
      total_parts_supplied = 100, total_failures_detected = 0, batches_analyzed = 1\<rparr>)"
  using vendor_analytics_score [of "''V-DENSO-09''" denso_db "(ObjectId ''65f0a1'', denso)"]
  by (simp add: denso_db_def denso_def Vendor_init_def toyota_batch_def spark_plug_def
      find_one_def find_cursor_def from_vendor_def get_vendor_analytics_def
      spec_total_supplied_def spec_total_failures_def vendor_parts_def
      raw_score_100_0 round2_100 del: round2.simps)

lemma spec_score_returns: "spec_score (- 4) 1 = Inr (Finite 125)"
  by code_simp

lemma run_returns_db:
  "snd (run rx empty_db
     [(ObjectId ''65f0a1'', RegisterVendor denso),
      (ObjectId ''65f0b3'', AddBatch (toyota_batch\<lparr>parts_manifest :=
         [spark_plug\<lparr>quantity := - 4, failures_logged := 1\<rparr>]\<rparr>))]) = returns_db"
  by (simp add: register_vendor_def add_batch_def empty_db_def returns_db_def find_one_def
      insert_one_def denso_def Vendor_init_def toyota_batch_def)

text \<open>
  C1 as worded, with \<open>100.0\<close> only for a total of zero, fails on \<open>returns_db\<close>, the
  store after the two requests above: the total supplied is \<open>-4\<close> and the total of
  failures \<open>1\<close>, for which the worded formula gives \<open>125.0\<close>, and the endpoint returns \<open>100.0\<close>.
\<close>

theorem vendor_analytics_negative_supply_counterexample:
  "fst (get_vendor_analytics returns_db ''V-DENSO-09'') = Inr (Analytics
     \<lparr>vendor_name = ''Denso Corporation'', calculated_durability_score = Finite 100,
      total_parts_supplied = - 4, total_failures_detected = 1, batches_analyzed = 1\<rparr>) \<and>
   spec_total_supplied returns_db ''V-DENSO-09'' = - 4 \<and>
   spec_total_failures returns_db ''V-DENSO-09'' = 1 \<and>
   spec_score (- 4) 1 = Inr (Finite 125)"
  by (simp add: returns_db_def denso_def Vendor_init_def toyota_batch_def spark_plug_def
      find_one_def find_cursor_def from_vendor_def get_vendor_analytics_def
      spec_total_supplied_def spec_total_failures_def vendor_parts_def
      raw_score_def spec_score_returns round2_100 del: round2.simps)

section \<open>Interleaved failure reports\<close>

text \<open>The endpoint is the two steps, one after the other.\<close>

lemma report_failure_two_steps:
  "(case report_failure_step s \<lparr>call_batch_id = bid, call_part_sku = sku, call_at = Called\<rparr> of
      (c1, s1) \<Rightarrow> (case report_failure_step s1 c1 of (c2, s2) \<Rightarrow> (call_at c2, s2)))
   = (Returned (fst (report_failure s bid sku)), snd (report_failure s bid sku))"
  by (simp add: report_failure_step_def report_failure_def Let_def
      split: option.splits prod.splits)

lemma run_schedule_interleave: "interleave\<^sup>*\<^sup>* cfg (run_schedule cfg ks)"
proof (induction cfg ks rule: run_schedule.induct)
  case (1 cfg)
  show ?case by simp
next
  case (2 s cs k ks)
  show ?case
  proof (cases "k < length cs \<and> \<not> returned (call_at (cs ! k))")
    case True
    obtain c' s' where st: "report_failure_step s (cs ! k) = (c', s')"
      by (cases "report_failure_step s (cs ! k)")
    with True have "interleave (s, cs) (s', cs[k := c'])"
      by (intro interleave.advance) simp_all
    moreover from 2(1) [OF True st [symmetric]]
    have "interleave\<^sup>*\<^sup>* (s', cs[k := c']) (run_schedule (s', cs[k := c']) ks)" .
    ultimately show ?thesis using True st by (simp add: converse_rtranclp_into_rtranclp)
  next
    case False
    from 2(2) [OF False] False show ?thesis by auto
  qed
qed


lemma first_match_map: "first_match (\<lambda>x. P (f x)) xs i \<longleftrightarrow> first_match P (map f xs) i"
  by (auto simp: first_match_def list_all_iff take_map)

lemma update_filter_keys:
  "update_filter bid sku b \<longleftrightarrow> batch_allocation_id b = bid \<and> sku \<in> set (map part_sku (parts_manifest b))"
  by (auto simp: update_filter_def has_sku_iff)

lemma first_match_doc_keys:
  "first_match (\<lambda>doc. update_filter bid sku (snd doc)) docs i \<longleftrightarrow>
   first_match (\<lambda>key. fst key = bid \<and> sku \<in> set (snd key)) (ledger_keys docs) i"
  unfolding ledger_keys_def
  by (subst first_match_map [symmetric]) (simp add: update_filter_keys)

lemma first_match_sku_keys:
  "first_match (\<lambda>p. part_sku p = sku) ps j \<longleftrightarrow> first_match (\<lambda>k. k = sku) (map part_sku ps) j"
  by (rule first_match_map)

lemma ledger_keys_increment_at: "ledger_keys (increment_at i j docs) = ledger_keys docs"
proof (cases "i < length docs")
  case True
  have "map part_sku ((parts_manifest (snd (docs ! i)))[j := inc_failures (parts_manifest (snd (docs ! i)) ! j)])
      = map part_sku (parts_manifest (snd (docs ! i)))"
  proof (cases "j < length (parts_manifest (snd (docs ! i)))")
    case True
    then show ?thesis
      by (simp add: map_update inc_failures_def list_update_same_conv)
  next
    case False
    then show ?thesis by (simp add: list_update_beyond)
  qed
  with True show ?thesis
    by (simp add: ledger_keys_def increment_at_def map_update list_update_same_conv)
next
  case False
  then show ?thesis by (simp add: increment_at_def list_update_beyond)
qed

lemma ledger_keys_nth:
  "i < length docs \<Longrightarrow>
   ledger_keys docs ! i = (batch_allocation_id (snd (docs ! i)), map part_sku (parts_manifest (snd (docs ! i))))"
  by (simp add: ledger_keys_def)

lemma filter_update_count:
  "k < length xs \<Longrightarrow> \<not> P (xs ! k) \<Longrightarrow>
   length (filter P (xs[k := y])) = length (filter P xs) + (if P y then 1 else 0)"
proof (induction xs arbitrary: k)
  case Nil
  then show ?case by simp
next
  case (Cons x xs)
  then show ?case by (cases k) auto
qed


lemma succeeded_returned: "succeeded st \<Longrightarrow> returned st"
  by (cases st rule: succeeded.cases) simp_all

lemma report_failure_step_Called:
  assumes "call_at c = Called" and "report_failure_step s c = (c', s')"
  shows "s' = s \<and> \<not> succeeded (call_at c')"
  using assms by (auto simp: report_failure_step_def split: option.splits)

lemma report_failure_step_Found_no_match:
  assumes "call_at c = Found" and "report_failure_step s c = (c', s')"
    and "\<forall>doc \<in> set (batch_collection s).
           \<not> update_filter (call_batch_id c) (call_part_sku c) (snd doc)"
  shows "s' = s \<and> \<not> succeeded (call_at c')"
  using assms(1,2) update_one_inc_no_match [OF assms(3)]
  by (auto simp: report_failure_step_def)

lemma report_failure_step_Found_match:
  assumes "call_at c = Found" and "report_failure_step s c = (c', s')"
    and "\<exists>doc \<in> set (batch_collection s).
           update_filter (call_batch_id c) (call_part_sku c) (snd doc)"
  shows "\<exists>i j. first_match (\<lambda>doc. update_filter (call_batch_id c) (call_part_sku c) (snd doc))
            (batch_collection s) i \<and>
          first_match (\<lambda>p. part_sku p = call_part_sku c)
            (parts_manifest (snd (batch_collection s ! i))) j \<and>
          s' = s\<lparr>batch_collection := increment_at i j (batch_collection s)\<rparr> \<and>
          succeeded (call_at c') \<and> call_batch_id c' = call_batch_id c \<and>
          call_part_sku c' = call_part_sku c"
proof -
  from update_one_inc_first [OF assms(3)] obtain i j
    where ij: "first_match (\<lambda>doc. update_filter (call_batch_id c) (call_part_sku c) (snd doc))
            (batch_collection s) i"
      "first_match (\<lambda>p. part_sku p = call_part_sku c)
            (parts_manifest (snd (batch_collection s ! i))) j"
      "update_one_inc (call_batch_id c) (call_part_sku c) (batch_collection s) =
         (increment_at i j (batch_collection s), 1)"
    by blast
  from assms(1,2) ij(3)
  have "s' = s\<lparr>batch_collection := increment_at i j (batch_collection s)\<rparr> \<and>
          succeeded (call_at c') \<and> call_batch_id c' = call_batch_id c \<and>
          call_part_sku c' = call_part_sku c"
    by (auto simp: report_failure_step_def)
  with ij(1,2) show ?thesis by blast
qed

lemma first_match_append: "first_match P xs i \<Longrightarrow> first_match P (xs @ ys) i"
  by (simp add: first_match_def nth_append)

lemma same_keys_keeps_target:
  assumes keys: "ledger_keys docs' = ledger_keys docs"
    and "first_match (\<lambda>doc. update_filter bid sku (snd doc)) docs i"
    and "first_match (\<lambda>p. part_sku p = sku) (parts_manifest (snd (docs ! i))) j"
  shows "first_match (\<lambda>doc. update_filter bid sku (snd doc)) docs' i \<and>
     first_match (\<lambda>p. part_sku p = sku) (parts_manifest (snd (docs' ! i))) j"
proof -
  from keys assms(2) have i': "first_match (\<lambda>doc. update_filter bid sku (snd doc)) docs' i"
    by (simp add: first_match_doc_keys)
  from assms(2) have il: "i < length docs" by (simp add: first_match_def)
  from i' have il': "i < length docs'" by (simp add: first_match_def)
  from keys have "ledger_keys docs' ! i = ledger_keys docs ! i" by simp
  with il il' have "map part_sku (parts_manifest (snd (docs' ! i))) =
      map part_sku (parts_manifest (snd (docs ! i)))"
    by (simp add: ledger_keys_nth)
  with assms(3) have "first_match (\<lambda>p. part_sku p = sku) (parts_manifest (snd (docs' ! i))) j"
    by (simp add: first_match_sku_keys)
  with i' show ?thesis by simp
qed

lemma advance_step_counter:
  assumes k: "k < length cs" and pending: "\<not> returned (call_at (cs ! k))"
    and st: "report_failure_step s (cs ! k) = (c', s')"
    and i: "first_match (\<lambda>doc. update_filter bid sku (snd doc)) (batch_collection s) i"
    and j: "first_match (\<lambda>p. part_sku p = sku) (parts_manifest (snd (batch_collection s ! i))) j"
  shows "ledger_keys (batch_collection s') = ledger_keys (batch_collection s) \<and>
     failures_logged (manifest_entry s' i j)
       - int (length (filter (succeeded_for bid sku) (cs[k := c']))) =
     failures_logged (manifest_entry s i j) - int (length (filter (succeeded_for bid sku) cs))"
proof -
  let ?c = "cs ! k"
  from pending have "\<not> succeeded_for bid sku ?c"
    by (auto simp: succeeded_for_def dest: succeeded_returned)
  with k have count: "length (filter (succeeded_for bid sku) (cs[k := c'])) =
      length (filter (succeeded_for bid sku) cs) + (if succeeded_for bid sku c' then 1 else 0)"
    by (rule filter_update_count)
  have unchanged: ?thesis if "s' = s" "\<not> succeeded (call_at c')"
    using that count by (simp add: succeeded_for_def)
  from i have il: "i < length (batch_collection s)"
    and ib: "batch_allocation_id (snd (batch_collection s ! i)) = bid"
    by (simp_all add: first_match_def update_filter_def)
  from j have jl: "j < length (parts_manifest (snd (batch_collection s ! i)))"
    and js: "part_sku (parts_manifest (snd (batch_collection s ! i)) ! j) = sku"
    by (simp_all add: first_match_def)
  show ?thesis
  proof (cases "call_at ?c")
    case Called
    from report_failure_step_Called [OF this st] show ?thesis by (intro unchanged) simp_all
  next
    case (Returned r)
    with pending show ?thesis by simp
  next
    case Found
    show ?thesis
    proof (cases "\<exists>doc \<in> set (batch_collection s).
           update_filter (call_batch_id ?c) (call_part_sku ?c) (snd doc)")
      case False
      then have "\<forall>doc \<in> set (batch_collection s).
           \<not> update_filter (call_batch_id ?c) (call_part_sku ?c) (snd doc)" by blast
      from report_failure_step_Found_no_match [OF Found st this] show ?thesis
        by (intro unchanged) simp_all
    next
      case True
      from report_failure_step_Found_match [OF Found st True] obtain i' j'
        where i': "first_match (\<lambda>doc. update_filter (call_batch_id ?c) (call_part_sku ?c) (snd doc))
            (batch_collection s) i'"
          and j': "first_match (\<lambda>p. part_sku p = call_part_sku ?c)
            (parts_manifest (snd (batch_collection s ! i'))) j'"
          and s': "s' = s\<lparr>batch_collection := increment_at i' j' (batch_collection s)\<rparr>"
          and c': "succeeded (call_at c')" "call_batch_id c' = call_batch_id ?c"
            "call_part_sku c' = call_part_sku ?c"
        by blast
      from i' have i'l: "i' < length (batch_collection s)"
        and i'b: "batch_allocation_id (snd (batch_collection s ! i')) = call_batch_id ?c"
        by (simp_all add: first_match_def update_filter_def)
      from j' have j'l: "j' < length (parts_manifest (snd (batch_collection s ! i')))"
        and j's: "part_sku (parts_manifest (snd (batch_collection s ! i')) ! j') = call_part_sku ?c"
        by (simp_all add: first_match_def)
      have keys: "ledger_keys (batch_collection s') = ledger_keys (batch_collection s)"
        by (simp add: s' ledger_keys_increment_at)
      have entry: "manifest_entry s' i j =
          (if i = i' \<and> j = j' then inc_failures (manifest_entry s i j) else manifest_entry s i j)"
        by (simp add: manifest_entry_def s' manifest_entry_increment_at [OF i'l j'l])
      show ?thesis
      proof (cases "call_batch_id ?c = bid \<and> call_part_sku ?c = sku")
        case same: True
        with i i' have "i' = i" by (auto dest: first_match_unique)
        with same j j' have "j' = j" by (auto dest: first_match_unique)
        from same c' have "succeeded_for bid sku c'" by (simp add: succeeded_for_def)
        with count entry \<open>i' = i\<close> \<open>j' = j\<close> keys show ?thesis
          by (simp add: inc_failures_def)
      next
        case other: False
        have "\<not> (i = i' \<and> j = j')"
        proof
          assume "i = i' \<and> j = j'"
          with ib i'b js j's have "call_batch_id ?c = bid \<and> call_part_sku ?c = sku" by simp
          with other show False by simp
        qed
        moreover from other c' have "\<not> succeeded_for bid sku c'" by (simp add: succeeded_for_def)
        ultimately show ?thesis using count entry keys by auto
      qed
    qed
  qed
qed

lemma interleave_step_counter:
  assumes step: "interleave (s, cs) (s', cs')"
    and i: "first_match (\<lambda>doc. update_filter bid sku (snd doc)) (batch_collection s) i"
    and j: "first_match (\<lambda>p. part_sku p = sku) (parts_manifest (snd (batch_collection s ! i))) j"
  shows "first_match (\<lambda>doc. update_filter bid sku (snd doc)) (batch_collection s') i \<and>
     first_match (\<lambda>p. part_sku p = sku) (parts_manifest (snd (batch_collection s' ! i))) j \<and>
     failures_logged (manifest_entry s' i j) - int (length (filter (succeeded_for bid sku) cs')) =
     failures_logged (manifest_entry s i j) - int (length (filter (succeeded_for bid sku) cs))"
  using step
proof (cases rule: interleave.cases)
  case (advance k c')
  from advance_step_counter [OF advance(2,3,4) i j] advance(1)
    same_keys_keeps_target [OF _ i j, of "batch_collection s'"]
  show ?thesis by simp
next
  case (insert_batch oid batch)
  from i have il: "i < length (batch_collection s)" by (simp add: first_match_def)
  from i have "first_match (\<lambda>doc. update_filter bid sku (snd doc))
      (batch_collection s @ [(oid, batch)]) i"
    by (rule first_match_append)
  with insert_batch il j show ?thesis
    by (simp add: insert_one_def manifest_entry_def nth_append)
next
  case (insert_vendor oid vendor)
  with i j show ?thesis by (simp add: manifest_entry_def)
next
  case (insert_center oid center)
  with i j show ?thesis by (simp add: manifest_entry_def)
qed

text \<open>
  C4. Let entry \<open>j\<close> of document \<open>i\<close> be the one a report against \<open>(bid, sku)\<close> updates
  in the store \<open>s\<close>, and let a pool of calls, against any pairs, start there. At every
  point of every interleaving of their steps with each other and with the writes of the
  other endpoints, \<open>failures_logged\<close> of that entry is its value in \<open>s\<close> plus the number
  of calls against \<open>(bid, sku)\<close> that have returned successfully.
\<close>

theorem concurrent_reports_counted_once:
  assumes run: "interleave\<^sup>*\<^sup>* (s, cs) (s', cs')"
    and i: "first_match (\<lambda>doc. update_filter bid sku (snd doc)) (batch_collection s) i"
    and j: "first_match (\<lambda>p. part_sku p = sku) (parts_manifest (snd (batch_collection s ! i))) j"
    and start: "list_all (\<lambda>c. call_at c = Called) cs"
  shows "failures_logged (manifest_entry s' i j) =
     failures_logged (manifest_entry s i j) + int (length (filter (succeeded_for bid sku) cs'))"
proof -
  have "first_match (\<lambda>doc. update_filter bid sku (snd doc)) (batch_collection (fst cfg')) i \<and>
     first_match (\<lambda>p. part_sku p = sku) (parts_manifest (snd (batch_collection (fst cfg') ! i))) j \<and>
     failures_logged (manifest_entry (fst cfg') i j)
       - int (length (filter (succeeded_for bid sku) (snd cfg'))) =
     failures_logged (manifest_entry s i j) - int (length (filter (succeeded_for bid sku) cs))"
    if "interleave\<^sup>*\<^sup>* (s, cs) cfg'" for cfg'
    using that
  proof (induction rule: rtranclp_induct)
    case base
    from i j show ?case by simp
  next
    case (step cfg cfg')
    obtain s1 cs1 where cfg: "cfg = (s1, cs1)" by (cases cfg)
    obtain s2 cs2 where cfg': "cfg' = (s2, cs2)" by (cases cfg')
    from step.IH cfg
    have i1: "first_match (\<lambda>doc. update_filter bid sku (snd doc)) (batch_collection s1) i"
      and j1: "first_match (\<lambda>p. part_sku p = sku) (parts_manifest (snd (batch_collection s1 ! i))) j"
      and c1: "failures_logged (manifest_entry s1 i j) - int (length (filter (succeeded_for bid sku) cs1)) =
        failures_logged (manifest_entry s i j) - int (length (filter (succeeded_for bid sku) cs))"
      by simp_all
    from step.hyps(2) cfg cfg' have st: "interleave (s1, cs1) (s2, cs2)" by simp
    from interleave_step_counter [OF st i1 j1] c1 cfg'
    show ?case by simp
  qed
  from this [OF run]
  have "failures_logged (manifest_entry s' i j) - int (length (filter (succeeded_for bid sku) cs')) =
     failures_logged (manifest_entry s i j) - int (length (filter (succeeded_for bid sku) cs))"
    by simp
  moreover from start have "filter (succeeded_for bid sku) cs = []"
    by (auto simp: filter_empty_conv list_all_iff succeeded_for_def)
  ultimately show ?thesis by simp
qed

theorem concurrent_reports_counted_once_witness:
  "list_all (\<lambda>c. call_at c = Called) two_calls \<and>
   first_match (\<lambda>doc. update_filter ''TOYOTA_202403A001'' ''90919-01191'' (snd doc))
     (batch_collection denso_db) 0 \<and>
   first_match (\<lambda>p. part_sku p = ''90919-01191'')
     (parts_manifest (snd (batch_collection denso_db ! 0))) 0 \<and>
   map call_at (snd (run_schedule (denso_db, two_calls) [0, 1, 1, 0])) =
     [Returned (Inr (Message ''Failure Logged. Vendor Durability Score Impacted.'')),
      Returned (Inr (Message ''Failure Logged. Vendor Durability Score Impacted.''))] \<and>
   failures_logged (manifest_entry denso_db 0 0) = 0 \<and>
   failures_logged (manifest_entry (fst (run_schedule (denso_db, two_calls) [0, 1, 1, 0])) 0 0) = 2"
proof -
  have start: "list_all (\<lambda>c. call_at c = Called) two_calls"
    by (simp add: two_calls_def numeral_2_eq_2)
  have i: "first_match (\<lambda>doc. update_filter ''TOYOTA_202403A001'' ''90919-01191'' (snd doc))
     (batch_collection denso_db) 0"
    by (simp add: first_match_def denso_db_def toyota_batch_def spark_plug_def update_filter_def
        has_sku_def)
  have j: "first_match (\<lambda>p. part_sku p = ''90919-01191'')
     (parts_manifest (snd (batch_collection denso_db ! 0))) 0"
    by (simp add: first_match_def denso_db_def toyota_batch_def spark_plug_def)
  have run: "interleave\<^sup>*\<^sup>* (denso_db, two_calls)
      (fst (run_schedule (denso_db, two_calls) [0, 1, 1, 0]),
       snd (run_schedule (denso_db, two_calls) [0, 1, 1, 0]))"
    using run_schedule_interleave [of "(denso_db, two_calls)" "[0, 1, 1, 0]"] by simp
  have calls: "map call_at (snd (run_schedule (denso_db, two_calls) [0, 1, 1, 0])) =
     [Returned (Inr (Message ''Failure Logged. Vendor Durability Score Impacted.'')),
      Returned (Inr (Message ''Failure Logged. Vendor Durability Score Impacted.''))]"
    by (simp add: two_calls_def numeral_2_eq_2 denso_db_def toyota_batch_def spark_plug_def
        report_failure_step_def find_one_def update_filter_def has_sku_def inc_failures_def)
  then have n: "length (filter (succeeded_for ''TOYOTA_202403A001'' ''90919-01191'')
      (snd (run_schedule (denso_db, two_calls) [0, 1, 1, 0]))) = 2"
    by (simp add: two_calls_def numeral_2_eq_2 denso_db_def toyota_batch_def spark_plug_def
        report_failure_step_def find_one_def update_filter_def has_sku_def inc_failures_def
        succeeded_for_def)
  have pre: "failures_logged (manifest_entry denso_db 0 0) = 0"
    by (simp add: manifest_entry_def denso_db_def toyota_batch_def spark_plug_def)
  from concurrent_reports_counted_once [OF run i j start] n pre start i j calls
  show ?thesis by simp
qed

end
